theory Spec2Isabelle
  imports Complex_Main
begin

section \<open>Python values used by the analyzer\<close>

text \<open>
  The analyzer (\<^verbatim>\<open>src/analyzer.py\<close>, class \<^verbatim>\<open>WebsiteRater\<close>) computes with Python
  ints and floats.  Every number it produces is modelled as an exact rational: an int is
  embedded with \<open>of_int\<close>, and float arithmetic is idealised as exact arithmetic (the
  binary rounding error of a double is not modelled).  Exceptions are values: a function
  that can raise returns \<open>py_exception + 'a\<close>, with \<open>Inl\<close> the raised exception.
\<close>

datatype py_exception =
    RequestException string
  | HTTPError string
  | ParserRejectedMarkup string
  | AttributeError string
  | KeyError string
  | ZeroDivisionError string

text \<open>\<^verbatim>\<open>str(e)\<close>: the message the exception was raised with.\<close>

fun str_exc :: "py_exception \<Rightarrow> string" where
  "str_exc (RequestException m) = m"
| "str_exc (HTTPError m) = m"
| "str_exc (ParserRejectedMarkup m) = m"
| "str_exc (AttributeError m) = m"
| "str_exc (KeyError m) = m"
| "str_exc (ZeroDivisionError m) = m"

text \<open>Sequencing of two computations that may raise: the first exception wins.\<close>

definition and_then :: "py_exception + 'a \<Rightarrow> ('a \<Rightarrow> py_exception + 'b) \<Rightarrow> py_exception + 'b" where
  "and_then m f = (case m of Inl e \<Rightarrow> Inl e | Inr x \<Rightarrow> f x)"

text \<open>\<^verbatim>\<open>a / n\<close> with \<open>n\<close> a length: raises \<^verbatim>\<open>ZeroDivisionError\<close> when \<open>n\<close> is 0.\<close>

definition true_div :: "rat \<Rightarrow> nat \<Rightarrow> py_exception + rat" where
  "true_div a n = (if n = 0 then Inl (ZeroDivisionError ''division by zero'') else Inr (a / of_nat n))"

text \<open>
  \<^verbatim>\<open>round(x, ndigits)\<close>: Python rounds to the nearest multiple of \<open>10\<^sup>-\<^sup>n\<close>, and a value
  exactly half way between two of them to the one whose last digit is even.
\<close>

definition round_half_even :: "rat \<Rightarrow> int" where
  "round_half_even x =
     (let f = \<lfloor>x\<rfloor>; d = x - of_int f
      in if d < 1 / 2 then f else if 1 / 2 < d then f + 1 else if even f then f else f + 1)"

definition py_round :: "rat \<Rightarrow> nat \<Rightarrow> rat" where
  "py_round x ndigits = of_int (round_half_even (x * 10 ^ ndigits)) / 10 ^ ndigits"

text \<open>\<^verbatim>\<open>s.startswith(p)\<close> and \<^verbatim>\<open>sub in s\<close> on strings.\<close>

fun startswith :: "string \<Rightarrow> string \<Rightarrow> bool" where
  "startswith s [] = True"
| "startswith [] (p # ps) = False"
| "startswith (c # s) (p # ps) = (c = p \<and> startswith s ps)"

fun contains :: "string \<Rightarrow> string \<Rightarrow> bool" where
  "contains [] sub = (sub = [])"
| "contains (c # s) sub = (startswith (c # s) sub \<or> contains s sub)"

text \<open>
  A dict with string keys is an association list in insertion order;
  \<^verbatim>\<open>d.values()\<close> is the list of its second components and \<^verbatim>\<open>d[k]\<close> raises
  \<^verbatim>\<open>KeyError\<close> on a missing key.
\<close>

type_synonym 'v dict = "(string \<times> 'v) list"

definition dict_values :: "'v dict \<Rightarrow> 'v list" where
  "dict_values d = map snd d"


section \<open>The threshold ladder\<close>

text \<open>
  \<^verbatim>\<open>_rate_metric(value, thresholds, reverse)\<close>: the loop over
  \<^verbatim>\<open>enumerate(thresholds)\<close> returns from inside at the first threshold the value does
  not exceed; \<open>None\<close> is the loop running to its end.
\<close>

fun rate_loop :: "rat \<Rightarrow> (nat \<times> rat) list \<Rightarrow> bool \<Rightarrow> int option" where
  "rate_loop v [] reverse = None"
| "rate_loop v ((i, threshold) # rest) reverse =
     (if reverse then
        (if v \<le> threshold then Some (10 - (int i * 2)) else rate_loop v rest reverse)
      else
        (if v \<le> threshold then Some ((int i + 1) * 2) else rate_loop v rest reverse))"

definition rate_metric :: "rat \<Rightarrow> rat list \<Rightarrow> bool \<Rightarrow> int" where
  "rate_metric v thresholds reverse =
     (case rate_loop v (enumerate 0 thresholds) reverse of
        Some score \<Rightarrow> score
      | None \<Rightarrow> (if reverse then 0 else 10))"

section \<open>The parsed document\<close>

text \<open>
  \<^verbatim>\<open>BeautifulSoup(text, 'html.parser')\<close> returns a tree of tags and strings.  The
  \<^verbatim>\<open>BeautifulSoup\<close> object is itself a tag, named \<^verbatim>\<open>[document]\<close>, whose contents are
  the top-level nodes.  An attribute dict holds each attribute once; a value is the
  attribute's text.
\<close>

datatype node =
    NavigableString string
  | Tag (name: string) (attrs: "string dict") (contents: "node list")

definition BeautifulSoup_object :: "node list \<Rightarrow> node" where
  "BeautifulSoup_object cs = Tag ''[document]'' [] cs"

text \<open>All nodes below a tag, in document order (the tag itself is not among them).\<close>

fun descendants :: "node \<Rightarrow> node list" where
  "descendants (NavigableString s) = []"
| "descendants (Tag n a cs) = concat (map (\<lambda>c. c # descendants c) cs)"

fun is_tag_named :: "string list \<Rightarrow> node \<Rightarrow> bool" where
  "is_tag_named names (NavigableString s) = False"
| "is_tag_named names (Tag n a cs) = (n \<in> set names)"

text \<open>\<^verbatim>\<open>tag.find_all([n1, n2, ...])\<close> and \<^verbatim>\<open>tag.find(n)\<close> (\<open>None\<close> when there is none).\<close>

definition find_all :: "node \<Rightarrow> string list \<Rightarrow> node list" where
  "find_all soup names = filter (is_tag_named names) (descendants soup)"

definition find_tag :: "node \<Rightarrow> string \<Rightarrow> node option" where
  "find_tag soup n = (case find_all soup [n] of [] \<Rightarrow> None | t # rest \<Rightarrow> Some t)"

text \<open>\<^verbatim>\<open>tag.get(key)\<close>, and the truth value Python gives the outcome.\<close>

fun get_attr :: "node \<Rightarrow> string \<Rightarrow> string option" where
  "get_attr (NavigableString s) k = None"
| "get_attr (Tag n a cs) k = map_of a k"

fun truthy :: "string option \<Rightarrow> bool" where
  "truthy None = False"
| "truthy (Some s) = (s \<noteq> [])"

text \<open>
  \<^verbatim>\<open>soup.find(n, {k: v})\<close>.  The parser stores \<^verbatim>\<open>rel\<close> of a \<^verbatim>\<open>link\<close> as the list of
  its whitespace-separated words and the filter accepts a tag when one of them is \<open>v\<close>;
  any other attribute used here is compared as a whole.
\<close>

definition is_space :: "char \<Rightarrow> bool" where
  "is_space c = (c \<in> set [CHR '' '', CHR 0x09, CHR 0x0A, CHR 0x0B, CHR 0x0C, CHR 0x0D])"

fun split_words :: "string \<Rightarrow> string \<Rightarrow> string list" where
  "split_words w [] = (if w = [] then [] else [w])"
| "split_words w (c # cs) =
     (if is_space c then (if w = [] then split_words [] cs else w # split_words [] cs)
      else split_words (w @ [c]) cs)"

definition attr_matches :: "string \<Rightarrow> string \<Rightarrow> string \<Rightarrow> node \<Rightarrow> bool" where
  "attr_matches n k v t =
     (case get_attr t k of
        None \<Rightarrow> False
      | Some s \<Rightarrow> (if n = ''link'' \<and> k = ''rel'' then v \<in> set (split_words [] s) else s = v))"

definition find_with_attr :: "node \<Rightarrow> string \<Rightarrow> string \<Rightarrow> string \<Rightarrow> node option" where
  "find_with_attr soup n k v =
     (case filter (attr_matches n k v) (find_all soup [n]) of [] \<Rightarrow> None | t # rest \<Rightarrow> Some t)"

text \<open>\<^verbatim>\<open>soup.find_all(role=True)\<close>: the tags that carry the attribute, whatever its value.\<close>

fun has_attr :: "string \<Rightarrow> node \<Rightarrow> bool" where
  "has_attr k (NavigableString s) = False"
| "has_attr k (Tag n a cs) = (map_of a k \<noteq> None)"

definition find_all_having :: "node \<Rightarrow> string \<Rightarrow> node list" where
  "find_all_having soup k = filter (has_attr k) (descendants soup)"

text \<open>
  \<^verbatim>\<open>str(node)\<close>: the markup the tree is written back as.  Entity substitution in text and
  attribute values is left out; no property below depends on what the text is.
\<close>

definition void_elements :: "string list" where
  "void_elements = [''area'', ''base'', ''br'', ''col'', ''embed'', ''hr'', ''img'', ''input'',
     ''keygen'', ''link'', ''menuitem'', ''meta'', ''param'', ''source'', ''track'', ''wbr'']"

definition str_attr :: "string \<times> string \<Rightarrow> string" where
  "str_attr kv = '' '' @ fst kv @ ''='' @ [CHR 0x22] @ snd kv @ [CHR 0x22]"

fun str_node :: "node \<Rightarrow> string" where
  "str_node (NavigableString s) = s"
| "str_node (Tag n a cs) =
     (if n = ''[document]'' then concat (map str_node cs)
      else if cs = [] \<and> n \<in> set void_elements then ''<'' @ n @ concat (map str_attr a) @ ''/>''
      else ''<'' @ n @ concat (map str_attr a) @ ''>'' @ concat (map str_node cs) @ ''</'' @ n @ ''>'')"

section \<open>Metric extraction\<close>

subsection \<open>Design\<close>

definition analyze_color_contrast :: "node \<Rightarrow> rat" where
  "analyze_color_contrast soup =
     (let score = 0;
          score = (if find_all soup [''style'', ''link''] \<noteq> [] then score + 5 else score);
          score = (if contains (str_node soup) ''prefers-color-scheme'' then score + 5 else score)
      in score)"

text \<open>\<^verbatim>\<open>fonts\<close> is a set of strings: its length counts the distinct ones.\<close>

definition analyze_typography :: "node \<Rightarrow> rat" where
  "analyze_typography soup =
     (let fonts = remdups (map str_node
                    (filter (\<lambda>elem. contains (str_node elem) ''font-family'')
                       (find_all soup [''style'', ''link''])));
          score = of_nat (min (length fonts * 2) 5);
          score = (if find_all soup [''h1'', ''h2'', ''h3'', ''h4'', ''h5'', ''h6''] \<noteq> []
                   then score + 5 else score)
      in score)"

definition semantic_elements :: "string list" where
  "semantic_elements = [''header'', ''nav'', ''main'', ''article'', ''section'', ''aside'', ''footer'']"

definition analyze_layout :: "node \<Rightarrow> rat" where
  "analyze_layout soup =
     min (fold (\<lambda>element score. if find_tag soup element \<noteq> None then score + 3 / 2 else score)
            semantic_elements 0) 10"

definition check_responsive_design :: "node \<Rightarrow> rat" where
  "check_responsive_design soup =
     (let score = 0;
          score = (if find_with_attr soup ''meta'' ''name'' ''viewport'' \<noteq> None then score + 4 else score);
          score = (if contains (str_node soup) ''@media'' then score + 3 else score);
          score = (if find_all soup [''picture'', ''source''] \<noteq> [] then score + 3 else score)
      in score)"

definition analyze_visual_hierarchy :: "node \<Rightarrow> rat" where
  "analyze_visual_hierarchy soup =
     (let score = 0;
          score = (if find_tag soup ''h1'' \<noteq> None then score + 3 else score);
          score = (if find_all soup [''ul'', ''ol''] \<noteq> [] then score + 2 else score);
          score = (if find_all soup [''strong'', ''em''] \<noteq> [] then score + 2 else score);
          score = (if find_all soup [''blockquote'', ''figure''] \<noteq> [] then score + 3 else score)
      in score)"

definition analyze_design :: "node \<Rightarrow> rat dict" where
  "analyze_design soup =
     [(''color_contrast'', analyze_color_contrast soup),
      (''typography'', analyze_typography soup),
      (''layout_structure'', analyze_layout soup),
      (''responsive_design'', check_responsive_design soup),
      (''visual_hierarchy'', analyze_visual_hierarchy soup)]"

subsection \<open>SEO and accessibility\<close>

definition analyze_headings :: "node \<Rightarrow> rat" where
  "analyze_headings soup =
     (let headings = find_all soup [''h1'', ''h2'', ''h3'', ''h4'', ''h5'', ''h6'']
      in if headings = [] then 0 else of_nat (min (length headings * 2) 10))"

definition check_img_alt :: "node \<Rightarrow> rat" where
  "check_img_alt soup =
     (let images = find_all soup [''img'']
      in if images = [] then 10
         else (let images_with_alt = filter (\<lambda>img. truthy (get_attr img ''alt'')) images
               in py_round ((of_nat (length images_with_alt) / of_nat (length images)) * 10) 2))"

definition check_aria_landmarks :: "node \<Rightarrow> rat" where
  "check_aria_landmarks soup =
     (let landmarks = find_all_having soup ''role'' in of_nat (min (length landmarks * 2) 10))"

definition check_form_labels :: "node \<Rightarrow> rat" where
  "check_form_labels soup =
     (let forms = find_all soup [''form'']
      in if forms = [] then 10
         else min (fold (\<lambda>form score.
                      (let inputs = find_all form [''input'', ''select'', ''textarea''];
                           labels = find_all form [''label'']
                       in if inputs \<noteq> [] \<and> length inputs \<le> length labels then score + 5 else score))
                    forms 0) 10)"

definition check_seo_basics :: "node \<Rightarrow> rat dict" where
  "check_seo_basics soup =
     [(''title'', if find_tag soup ''title'' \<noteq> None then 10 else 0),
      (''meta_description'', if find_with_attr soup ''meta'' ''name'' ''description'' \<noteq> None then 10 else 0),
      (''headings'', analyze_headings soup),
      (''img_alt'', check_img_alt soup),
      (''canonical'', if find_with_attr soup ''link'' ''rel'' ''canonical'' \<noteq> None then 10 else 0)]"

text \<open>
  \<^verbatim>\<open>soup.html\<close> is \<^verbatim>\<open>soup.find('html')\<close>; when it is \<^verbatim>\<open>None\<close> the call of
  \<^verbatim>\<open>.get('lang')\<close> raises \<^verbatim>\<open>AttributeError\<close> before any other entry is computed.
\<close>

definition none_has_no_get :: string where
  "none_has_no_get = [CHR 0x27] @ ''NoneType'' @ [CHR 0x27] @ '' object has no attribute ''
     @ [CHR 0x27] @ ''get'' @ [CHR 0x27]"

definition check_accessibility :: "node \<Rightarrow> py_exception + rat dict" where
  "check_accessibility soup =
     (case find_tag soup ''html'' of
        None \<Rightarrow> Inl (AttributeError none_has_no_get)
      | Some html \<Rightarrow>
          Inr [(''lang_attribute'', if truthy (get_attr html ''lang'') then 10 else 0),
               (''aria_landmarks'', check_aria_landmarks soup),
               (''form_labels'', check_form_labels soup),
               (''alt_texts'', check_img_alt soup),
               (''heading_structure'', analyze_headings soup)])"

section \<open>Fetching a page\<close>

text \<open>
  What \<^verbatim>\<open>requests.get\<close> returns: the status line, the body bytes, the decoded text,
  the headers and \<^verbatim>\<open>elapsed.total_seconds()\<close>.
\<close>

record response =
  status_code :: int
  reason :: string
  response_url :: string
  content :: string
  response_text :: string
  headers :: "string dict"
  elapsed_seconds :: rat

text \<open>Header names are compared without regard to case.\<close>

definition lower_char :: "char \<Rightarrow> char" where
  "lower_char c =
     (case map_of (zip ''ABCDEFGHIJKLMNOPQRSTUVWXYZ'' ''abcdefghijklmnopqrstuvwxyz'') c of
        None \<Rightarrow> c
      | Some l \<Rightarrow> l)"

definition headers_get :: "string dict \<Rightarrow> string \<Rightarrow> string \<Rightarrow> string" where
  "headers_get h k dflt =
     (case map_of (map (\<lambda>kv. (map lower_char (fst kv), snd kv)) h) (map lower_char k) of
        None \<Rightarrow> dflt
      | Some v \<Rightarrow> v)"

text \<open>Decimal digits of a status code, for the message of \<^verbatim>\<open>raise_for_status\<close>.\<close>

fun str_nat :: "nat \<Rightarrow> string" where
  "str_nat n =
     (if n < 10 then [''0123456789'' ! n] else str_nat (n div 10) @ [''0123456789'' ! (n mod 10)])"

declare str_nat.simps [simp del]

text \<open>
  \<^verbatim>\<open>response.raise_for_status()\<close> raises \<^verbatim>\<open>HTTPError\<close> for a status from 400 to 599
  and returns for every other status.
\<close>

definition raise_for_status :: "response \<Rightarrow> py_exception + unit" where
  "raise_for_status r =
     (if 400 \<le> status_code r \<and> status_code r < 500 then
        Inl (HTTPError (str_nat (nat (status_code r)) @ '' Client Error: '' @ reason r
               @ '' for url: '' @ response_url r))
      else if 500 \<le> status_code r \<and> status_code r < 600 then
        Inl (HTTPError (str_nat (nat (status_code r)) @ '' Server Error: '' @ reason r
               @ '' for url: '' @ response_url r))
      else Inr ())"

text \<open>
  The surroundings of one call of \<^verbatim>\<open>analyze_website\<close>: what the request for a URL
  (with the given headers and timeout) returns or raises, the seconds the clock measures
  around it, and the parser applied to the response text.
\<close>

record world =
  requests_get :: "string \<Rightarrow> string dict \<Rightarrow> int \<Rightarrow> py_exception + response"
  seconds_around_get :: rat
  html_parser :: "string \<Rightarrow> py_exception + node"

record rater =
  timeout :: int
  max_workers :: int
  rater_headers :: "string dict"

definition WebsiteRater :: "int \<Rightarrow> int \<Rightarrow> rater" where
  "WebsiteRater t mw =
     \<lparr>timeout = t, max_workers = mw,
      rater_headers = [(''User-Agent'', ''Mozilla/5.0 (Windows NT 10.0; Win64; x64) AppleWebKit/537.36'')]\<rparr>"

definition check_performance :: "response \<Rightarrow> rat \<Rightarrow> rat dict" where
  "check_performance response load_time =
     [(''load_time'', of_int (rate_metric load_time [1, 2, 3, 4, 5] False)),
      (''response_size'',
         of_int (rate_metric (of_nat (length (content response)) / 1024 / 1024) [1, 2, 5, 10, 20] True)),
      (''ttfb'', of_int (rate_metric (elapsed_seconds response) [1 / 10, 3 / 10, 1 / 2, 4 / 5, 1] True)),
      (''compression'',
         if contains (headers_get (headers response) ''Content-Encoding'' []) ''gzip'' then 10 else 0)]"

section \<open>The site analyzer\<close>

datatype site_result =
    Success (url: string) (scores: "rat dict") (metrics: "(rat dict) dict")
  | Failure (url: string) (error: string)


definition normalize_url :: "string \<Rightarrow> string" where
  "normalize_url u =
     (if \<not> (startswith u ''http://'' \<or> startswith u ''https://'') then ''https://'' @ u else u)"

text \<open>\<^verbatim>\<open>round(sum(d.values()) / len(d), 2)\<close>.\<close>

definition round_avg :: "rat dict \<Rightarrow> py_exception + rat" where
  "round_avg d = and_then (true_div (sum_list (dict_values d)) (length d)) (\<lambda>q. Inr (py_round q 2))"

text \<open>The body of the \<^verbatim>\<open>try\<close> block, entered with the URL already normalised.\<close>

definition analyze_body :: "rater \<Rightarrow> world \<Rightarrow> string \<Rightarrow> py_exception + site_result" where
  "analyze_body self w u =
     and_then (requests_get w u (rater_headers self) (timeout self)) (\<lambda>response.
     and_then (raise_for_status response) (\<lambda>_.
     let load_time = seconds_around_get w in
     and_then (html_parser w (response_text response)) (\<lambda>soup.
     let performance_metrics = check_performance response load_time;
         design_metrics = analyze_design soup;
         seo_metrics = check_seo_basics soup in
     and_then (check_accessibility soup) (\<lambda>accessibility_metrics.
     and_then (round_avg performance_metrics) (\<lambda>performance_score.
     and_then (round_avg design_metrics) (\<lambda>design_score.
     and_then (round_avg seo_metrics) (\<lambda>seo_score.
     and_then (round_avg accessibility_metrics) (\<lambda>accessibility_score.
     let scores4 = [(''performance_score'', performance_score),
                    (''design_score'', design_score),
                    (''seo_score'', seo_score),
                    (''accessibility_score'', accessibility_score)] in
     and_then (round_avg scores4) (\<lambda>overall_score.
     Inr (Success u (scores4 @ [(''overall_score'', overall_score)])
            [(''performance'', performance_metrics),
             (''design'', design_metrics),
             (''seo'', seo_metrics),
             (''accessibility'', accessibility_metrics)]))))))))))"

text \<open>
  \<^verbatim>\<open>analyze_website\<close>: the \<^verbatim>\<open>except Exception\<close> branch turns whatever the body
  raised into a failure record that carries the (normalised) URL and \<^verbatim>\<open>str(e)\<close>.
\<close>

definition analyze_website :: "rater \<Rightarrow> world \<Rightarrow> string \<Rightarrow> py_exception + site_result" where
  "analyze_website self w u0 =
     (let u = normalize_url u0
      in case analyze_body self w u of
           Inl e \<Rightarrow> Inr (Failure u (str_exc e))
         | Inr result \<Rightarrow> Inr result)"

section \<open>The batch coordinator\<close>












section \<open>The vocabulary of the specification\<close>

text \<open>A score lies in the interval from 0 to 10.\<close>

definition in_range :: "rat \<Rightarrow> bool" where
  "in_range x = (0 \<le> x \<and> x \<le> 10)"

text \<open>The arithmetic mean, as the specification words it.\<close>

definition spec_mean :: "rat list \<Rightarrow> rat" where
  "spec_mean xs = sum_list xs / of_nat (length xs)"

text \<open>
  The score set the specification asks for, from the four metric groups: each category
  score is the mean of its group rounded to 2 decimals, and the overall score is the mean
  of the four category scores rounded to 2 decimals.
\<close>

definition scores_from :: "rat dict \<Rightarrow> rat dict \<Rightarrow> rat dict \<Rightarrow> rat dict \<Rightarrow> rat dict" where
  "scores_from pm dm sm am =
     (let p = py_round (spec_mean (dict_values pm)) 2;
          d = py_round (spec_mean (dict_values dm)) 2;
          s = py_round (spec_mean (dict_values sm)) 2;
          a = py_round (spec_mean (dict_values am)) 2
      in [(''performance_score'', p), (''design_score'', d), (''seo_score'', s),
          (''accessibility_score'', a), (''overall_score'', py_round (spec_mean [p, d, s, a]) 2)])"

definition metrics_from :: "rat dict \<Rightarrow> rat dict \<Rightarrow> rat dict \<Rightarrow> rat dict \<Rightarrow> (rat dict) dict" where
  "metrics_from pm dm sm am =
     [(''performance'', pm), (''design'', dm), (''seo'', sm), (''accessibility'', am)]"


text \<open>The overall score a result carries, if any; a failure carries none.\<close>

fun overall_score :: "site_result \<Rightarrow> rat option" where
  "overall_score (Success u s m) = map_of s ''overall_score''"
| "overall_score (Failure u e) = None"




section \<open>Example pages and surroundings\<close>

text \<open>
  A page with a title, one heading and three images, two of which have a non-empty
  \<^verbatim>\<open>alt\<close>; a page whose only \<^verbatim>\<open>html\<close> element is nested inside a \<^verbatim>\<open>div\<close>; and a page
  without any \<^verbatim>\<open>html\<close> element.
\<close>

definition example_page :: node where
  "example_page = BeautifulSoup_object
     [Tag ''html'' [(''lang'', ''en'')]
        [Tag ''head'' [] [Tag ''title'' [] [NavigableString ''Hi'']],
         Tag ''body'' []
           [Tag ''h1'' [] [NavigableString ''Hi''],
            Tag ''img'' [(''alt'', ''a'')] [],
            Tag ''img'' [(''alt'', ''b'')] [],
            Tag ''img'' [] []]]]"

definition nested_html_page :: node where
  "nested_html_page = BeautifulSoup_object [Tag ''div'' [] [Tag ''html'' [(''lang'', ''en'')] []]]"

definition no_html_page :: node where
  "no_html_page = BeautifulSoup_object [Tag ''p'' [] [NavigableString ''hello'']]"

text \<open>
  A small gzip-encoded response with the given status line, and surroundings in which
  \<^verbatim>\<open>https://example.com\<close> answers with a given response within 0.05 seconds, every
  other host refuses the connection, and the parser returns a given tree.
\<close>

definition example_response :: "int \<Rightarrow> string \<Rightarrow> response" where
  "example_response code why =
     \<lparr>status_code = code, reason = why, response_url = ''https://example.com'',
      content = ''<p>hello</p>'', response_text = ''<p>hello</p>'',
      headers = [(''content-encoding'', ''gzip'')], elapsed_seconds = 1 / 20\<rparr>"

definition example_world :: "response \<Rightarrow> node \<Rightarrow> world" where
  "example_world resp doc =
     \<lparr>requests_get = (\<lambda>u h t. if u = ''https://example.com'' then Inr resp
                              else Inl (RequestException ''connection refused'')),
      seconds_around_get = 1 / 20,
      html_parser = (\<lambda>t. Inr doc)\<rparr>"

text \<open>What the analysis of the example page yields when the request is answered.\<close>

definition example_scores :: "rat dict" where
  "example_scores =
     [(''performance_score'', 8), (''design_score'', 8 / 5), (''seo_score'', 373 / 100),
      (''accessibility_score'', 573 / 100), (''overall_score'', 119 / 25)]"

definition example_metrics :: "(rat dict) dict" where
  "example_metrics =
     [(''performance'',
         [(''load_time'', 2), (''response_size'', 10), (''ttfb'', 10), (''compression'', 10)]),
      (''design'',
         [(''color_contrast'', 0), (''typography'', 5), (''layout_structure'', 0),
          (''responsive_design'', 0), (''visual_hierarchy'', 3)]),
      (''seo'',
         [(''title'', 10), (''meta_description'', 0), (''headings'', 2), (''img_alt'', 667 / 100),
          (''canonical'', 0)]),
      (''accessibility'',
         [(''lang_attribute'', 10), (''aria_landmarks'', 0), (''form_labels'', 10),
          (''alt_texts'', 667 / 100), (''heading_structure'', 2)])]"

section \<open>Properties of the threshold ladder\<close>

lemma rate_loop_hit:
  "i < length ths \<Longrightarrow> v \<le> ths ! i \<Longrightarrow> \<forall>j<i. ths ! j < v \<Longrightarrow>
   rate_loop v (enumerate n ths) reverse =
     Some (if reverse then 10 - (int (n + i) * 2) else (int (n + i) + 1) * 2)"
proof (induction ths arbitrary: n i)
  case Nil
  then show ?case by simp
next
  case (Cons t ths)
  show ?case
  proof (cases i)
    case 0
    with Cons.prems show ?thesis by simp
  next
    case (Suc k)
    with Cons.prems have k: "k < length ths" "v \<le> ths ! k" "\<forall>j<k. ths ! j < v" and t: "t < v"
      by auto
    from Cons.IH [OF k, of "Suc n"] t Suc show ?thesis by (cases reverse) simp_all
  qed
qed

lemma rate_loop_miss:
  "\<forall>j<length ths. ths ! j < v \<Longrightarrow> rate_loop v (enumerate n ths) reverse = None"
proof (induction ths arbitrary: n)
  case Nil
  then show ?case by simp
next
  case (Cons t ths)
  then have t: "t < v" and rest: "\<forall>j<length ths. ths ! j < v" by auto
  from Cons.IH [OF rest, of "Suc n"] t show ?case by (cases reverse) simp_all
qed

text \<open>
  Claim C4.  For every value and every threshold list: when \<open>i\<close> is the first index whose
  threshold the value does not exceed, the ascending ladder gives \<open>(i + 1) * 2\<close> and the
  descending ladder gives \<open>10 - 2 * i\<close>; when the value exceeds every threshold the
  ascending ladder gives 10 and the descending ladder 0.  The performance metrics use the
  ascending ladder over \<open>[1, 2, 3, 4, 5]\<close> for \<^verbatim>\<open>load_time\<close>, and the descending ladder
  over \<open>[1, 2, 5, 10, 20]\<close> (megabytes) for \<^verbatim>\<open>response_size\<close> and over
  \<open>[0.1, 0.3, 0.5, 0.8, 1]\<close> for \<^verbatim>\<open>ttfb\<close>.
\<close>

theorem rate_metric_threshold_ladder:
  "(i < length ths \<and> v \<le> ths ! i \<and> (\<forall>j<i. ths ! j < v) \<longrightarrow>
      rate_metric v ths False = (int i + 1) * 2 \<and> rate_metric v ths True = 10 - 2 * int i)
   \<and> ((\<forall>j<length ths. ths ! j < v) \<longrightarrow>
      rate_metric v ths False = 10 \<and> rate_metric v ths True = 0)
   \<and> map_of (check_performance resp load_time) ''load_time''
        = Some (of_int (rate_metric load_time [1, 2, 3, 4, 5] False))
   \<and> map_of (check_performance resp load_time) ''response_size''
        = Some (of_int (rate_metric (of_nat (length (content resp)) / 1024 / 1024) [1, 2, 5, 10, 20] True))
   \<and> map_of (check_performance resp load_time) ''ttfb''
        = Some (of_int (rate_metric (elapsed_seconds resp) [1 / 10, 3 / 10, 1 / 2, 4 / 5, 1] True))"
proof -
  have hit: "rate_metric v ths False = (int i + 1) * 2 \<and> rate_metric v ths True = 10 - 2 * int i"
    if "i < length ths" "v \<le> ths ! i" "\<forall>j<i. ths ! j < v"
    using rate_loop_hit [OF that, of 0] by (simp add: rate_metric_def)
  have miss: "rate_metric v ths False = 10 \<and> rate_metric v ths True = 0"
    if "\<forall>j<length ths. ths ! j < v"
    using rate_loop_miss [OF that, of 0] by (simp add: rate_metric_def)
  have perf: "map_of (check_performance resp load_time) ''load_time''
        = Some (of_int (rate_metric load_time [1, 2, 3, 4, 5] False))"
    "map_of (check_performance resp load_time) ''response_size''
        = Some (of_int (rate_metric (of_nat (length (content resp)) / 1024 / 1024) [1, 2, 5, 10, 20] True))"
    "map_of (check_performance resp load_time) ''ttfb''
        = Some (of_int (rate_metric (elapsed_seconds resp) [1 / 10, 3 / 10, 1 / 2, 4 / 5, 1] True))"
    by (simp_all add: check_performance_def)
  from hit miss perf show ?thesis by blast
qed

theorem rate_metric_threshold_ladder_witness:
  "(2::nat) < length [1, 2, 3, 4, 5 :: rat] \<and> (5 / 2 :: rat) \<le> [1, 2, 3, 4, 5] ! 2
   \<and> [1, 2, 3, 4, 5 :: rat] ! 0 < 5 / 2 \<and> [1, 2, 3, 4, 5 :: rat] ! 1 < 5 / 2
   \<and> rate_metric (5 / 2) [1, 2, 3, 4, 5] False = 6
   \<and> rate_metric (5 / 2) [1, 2, 3, 4, 5] True = 6
   \<and> list_all (\<lambda>t. t < 21) [1, 2, 5, 10, 20 :: rat]
   \<and> rate_metric 21 [1, 2, 5, 10, 20] False = 10
   \<and> rate_metric 21 [1, 2, 5, 10, 20] True = 0"
proof -
  have h: "(2::nat) < length [1, 2, 3, 4, 5 :: rat] \<and> (5 / 2 :: rat) \<le> [1, 2, 3, 4, 5] ! 2
     \<and> (\<forall>j<2. [1, 2, 3, 4, 5 :: rat] ! j < 5 / 2)"
    by (simp add: less_Suc_eq numeral_2_eq_2)
  have g: "\<forall>j<length [1, 2, 5, 10, 20 :: rat]. [1, 2, 5, 10, 20 :: rat] ! j < 21"
    by (simp add: less_Suc_eq All_less_Suc)
  from h g rate_metric_threshold_ladder [of 2 "[1, 2, 3, 4, 5]" "5 / 2"]
    rate_metric_threshold_ladder [of 0 "[1, 2, 5, 10, 20]" 21]
  show ?thesis by simp
qed

section \<open>Rounding and means stay in range\<close>

lemma round_half_even_bounds:
  assumes "of_int a \<le> x" "x \<le> of_int b"
  shows "a \<le> round_half_even x \<and> round_half_even x \<le> b"
proof -
  have lo: "a \<le> \<lfloor>x\<rfloor>" using assms(1) by (simp add: le_floor_iff)
  have hi: "\<lfloor>x\<rfloor> \<le> b" using assms(2) by (simp add: floor_le_iff)
  show ?thesis
  proof (cases "\<lfloor>x\<rfloor> = b")
    case True
    then have "x - of_int \<lfloor>x\<rfloor> \<le> 0" using assms(2) by simp
    then have "x - of_int \<lfloor>x\<rfloor> < 1 / 2" by linarith
    then have "round_half_even x = \<lfloor>x\<rfloor>" by (simp add: round_half_even_def Let_def)
    with lo hi show ?thesis by simp
  next
    case False
    with hi have "\<lfloor>x\<rfloor> + 1 \<le> b" by simp
    moreover have "round_half_even x = \<lfloor>x\<rfloor> \<or> round_half_even x = \<lfloor>x\<rfloor> + 1"
      by (simp add: round_half_even_def Let_def)
    ultimately show ?thesis using lo by auto
  qed
qed

lemma py_round_in_range: "in_range x \<Longrightarrow> in_range (py_round x 2)"
proof -
  assume "in_range x"
  then have "of_int 0 \<le> x * 10 ^ 2" "x * 10 ^ 2 \<le> of_int 1000"
    by (simp_all add: in_range_def)
  from round_half_even_bounds [OF this]
  have r: "0 \<le> round_half_even (x * 10 ^ 2)" "round_half_even (x * 10 ^ 2) \<le> 1000" by simp_all
  from r(1) have lo: "(0::rat) \<le> of_int (round_half_even (x * 10 ^ 2))" by simp
  from r(2) have "(of_int (round_half_even (x * 10 ^ 2)) :: rat) \<le> of_int 1000"
    by (simp only: of_int_le_iff)
  then have hi: "(of_int (round_half_even (x * 10 ^ 2)) :: rat) \<le> 1000" by simp
  from lo hi show ?thesis
    by (simp add: in_range_def py_round_def)
qed

lemma sum_list_in_range:
  "list_all in_range xs \<Longrightarrow> 0 \<le> sum_list xs \<and> sum_list xs \<le> 10 * of_nat (length xs)"
  by (induction xs) (auto simp: in_range_def algebra_simps)

lemma spec_mean_in_range:
  assumes "list_all in_range xs" "xs \<noteq> []"
  shows "in_range (spec_mean xs)"
proof -
  from assms(2) have n: "(0::rat) < of_nat (length xs)" by simp
  from sum_list_in_range [OF assms(1)] n show ?thesis
    unfolding in_range_def spec_mean_def
    by (simp add: pos_divide_le_eq)
qed

lemma round_avg_eq:
  "d \<noteq> [] \<Longrightarrow> round_avg d = Inr (py_round (spec_mean (dict_values d)) 2)"
  by (simp add: round_avg_def true_div_def and_then_def spec_mean_def dict_values_def)

section \<open>Every metric is in range\<close>

lemma rate_loop_range:
  "rate_loop v (enumerate n ths) reverse = Some s \<Longrightarrow>
   \<exists>i<length ths. s = (if reverse then 10 - (int (n + i) * 2) else (int (n + i) + 1) * 2)"
proof (induction ths arbitrary: n)
  case Nil
  then show ?case by simp
next
  case (Cons t ths)
  show ?case
  proof (cases "v \<le> t")
    case True
    with Cons.prems have "s = (if reverse then 10 - (int (n + 0) * 2) else (int (n + 0) + 1) * 2)"
      by (cases reverse) auto
    then show ?thesis by blast
  next
    case False
    with Cons.prems have "rate_loop v (enumerate (Suc n) ths) reverse = Some s"
      by (cases reverse) auto
    from Cons.IH [OF this] obtain i where "i < length ths"
      "s = (if reverse then 10 - (int (Suc n + i) * 2) else (int (Suc n + i) + 1) * 2)" by blast
    then have "Suc i < length (t # ths)"
      "s = (if reverse then 10 - (int (n + Suc i) * 2) else (int (n + Suc i) + 1) * 2)" by simp_all
    then show ?thesis by blast
  qed
qed

lemma rate_metric_five_in_range:
  assumes "length ths = 5"
  shows "in_range (of_int (rate_metric v ths reverse))"
proof (cases "rate_loop v (enumerate 0 ths) reverse")
  case None
  then show ?thesis by (simp add: rate_metric_def in_range_def)
next
  case (Some s)
  from rate_loop_range [OF Some] assms obtain i where i: "i < 5"
    and s: "s = (if reverse then 10 - (int i * 2) else (int i + 1) * 2)" by auto
  from i s have "0 \<le> s \<and> s \<le> 10" by (cases reverse) auto
  then have "(0::rat) \<le> of_int s \<and> (of_int s :: rat) \<le> of_int 10"
    by (simp only: of_int_le_iff of_int_0_le_iff)
  with Some show ?thesis by (simp add: rate_metric_def in_range_def)
qed

lemma check_performance_in_range:
  "list_all in_range (dict_values (check_performance response load_time))"
  by (simp add: check_performance_def dict_values_def rate_metric_five_in_range)
     (simp add: in_range_def)

lemma fold_add_lower:
  fixes a c :: rat
  assumes "0 \<le> c"
  shows "a \<le> fold (\<lambda>x s. if P x then s + c else s) xs a"
proof (induction xs arbitrary: a)
  case Nil
  then show ?case by simp
next
  case (Cons x xs)
  have "a \<le> (if P x then a + c else a)" using assms by simp
  also have "\<dots> \<le> fold (\<lambda>x s. if P x then s + c else s) xs (if P x then a + c else a)"
    by (rule Cons.IH)
  finally show ?case by simp
qed

lemma analyze_color_contrast_in_range: "in_range (analyze_color_contrast soup)"
  by (simp add: analyze_color_contrast_def in_range_def Let_def)

lemma analyze_typography_in_range: "in_range (analyze_typography soup)"
proof -
  have "(of_nat (min n 5) :: rat) \<le> 5" for n :: nat
    by (metis min.cobounded2 of_nat_le_iff of_nat_numeral)
  then show ?thesis
    by (auto simp: analyze_typography_def in_range_def Let_def intro: order_trans)
qed

lemma analyze_layout_in_range: "in_range (analyze_layout soup)"
  using fold_add_lower [of "3 / 2" 0 "\<lambda>element. find_tag soup element \<noteq> None" semantic_elements]
  by (simp add: analyze_layout_def in_range_def)

lemma check_responsive_design_in_range: "in_range (check_responsive_design soup)"
  by (simp add: check_responsive_design_def in_range_def Let_def)

lemma analyze_visual_hierarchy_in_range: "in_range (analyze_visual_hierarchy soup)"
  by (simp add: analyze_visual_hierarchy_def in_range_def Let_def)

lemma analyze_design_in_range: "list_all in_range (dict_values (analyze_design soup))"
  by (simp add: analyze_design_def dict_values_def analyze_color_contrast_in_range
      analyze_typography_in_range analyze_layout_in_range check_responsive_design_in_range
      analyze_visual_hierarchy_in_range)

lemma of_nat_min_10_in_range: "in_range (of_nat (min n 10))"
proof -
  have "(of_nat (min n 10) :: rat) \<le> of_nat 10" by (simp only: of_nat_le_iff min.cobounded2)
  then show ?thesis by (simp add: in_range_def)
qed

lemma in_range_flag: "in_range (if b then 10 else 0)"
  by (simp add: in_range_def)

lemma analyze_headings_in_range: "in_range (analyze_headings soup)"
  using in_range_flag [of False] by (simp add: analyze_headings_def Let_def of_nat_min_10_in_range)

lemma ratio_times_10_in_range:
  fixes q :: rat
  shows "q \<le> 1 \<Longrightarrow> 0 \<le> q \<Longrightarrow> in_range (q * 10)"
  by (simp add: in_range_def)

lemma check_img_alt_in_range: "in_range (check_img_alt soup)"
proof (cases "find_all soup [''img''] = []")
  case True
  then show ?thesis by (simp add: check_img_alt_def in_range_def)
next
  case False
  define n where "n = length (find_all soup [''img''])"
  define k where "k = length (filter (\<lambda>img. truthy (get_attr img ''alt'')) (find_all soup [''img'']))"
  have kn: "k \<le> n" unfolding k_def n_def by (rule length_filter_le)
  have n0: "0 < n" using False by (simp add: n_def)
  have "(of_nat k :: rat) \<le> of_nat n" using kn by (simp only: of_nat_le_iff)
  then have "(of_nat k :: rat) / of_nat n \<le> 1" using n0 by (simp add: divide_le_eq_1)
  moreover have "(0::rat) \<le> of_nat k / of_nat n" by simp
  ultimately have "in_range (((of_nat k :: rat) / of_nat n) * 10)"
    by (rule ratio_times_10_in_range)
  from py_round_in_range [OF this] False show ?thesis
    by (simp add: check_img_alt_def Let_def k_def n_def)
qed

lemma check_aria_landmarks_in_range: "in_range (check_aria_landmarks soup)"
  by (simp add: check_aria_landmarks_def Let_def of_nat_min_10_in_range)

lemma check_form_labels_in_range: "in_range (check_form_labels soup)"
  using fold_add_lower [of 5 0
      "\<lambda>form. find_all form [''input'', ''select'', ''textarea''] \<noteq> []
         \<and> length (find_all form [''input'', ''select'', ''textarea'']) \<le> length (find_all form [''label''])"
      "find_all soup [''form'']"]
  by (simp add: check_form_labels_def in_range_def Let_def)

lemma check_seo_basics_in_range: "list_all in_range (dict_values (check_seo_basics soup))"
  by (simp add: check_seo_basics_def dict_values_def analyze_headings_in_range check_img_alt_in_range
      in_range_flag)

lemma check_accessibility_in_range:
  "check_accessibility soup = Inr acc \<Longrightarrow> list_all in_range (dict_values acc)"
  by (auto simp: check_accessibility_def dict_values_def analyze_headings_in_range
      check_img_alt_in_range check_aria_landmarks_in_range check_form_labels_in_range in_range_flag
      split: option.splits)

section \<open>What the site analyzer returns\<close>

lemma round_avg_performance:
  "round_avg (check_performance r l) = Inr (py_round (spec_mean (dict_values (check_performance r l))) 2)"
  by (rule round_avg_eq) (simp add: check_performance_def)

lemma round_avg_design:
  "round_avg (analyze_design soup) = Inr (py_round (spec_mean (dict_values (analyze_design soup))) 2)"
  by (rule round_avg_eq) (simp add: analyze_design_def)

lemma round_avg_seo:
  "round_avg (check_seo_basics soup) = Inr (py_round (spec_mean (dict_values (check_seo_basics soup))) 2)"
  by (rule round_avg_eq) (simp add: check_seo_basics_def)

lemma round_avg_accessibility:
  "check_accessibility soup = Inr acc \<Longrightarrow>
   round_avg acc = Inr (py_round (spec_mean (dict_values acc)) 2)"
  by (rule round_avg_eq) (auto simp: check_accessibility_def split: option.splits)

lemma round_avg_four:
  "round_avg [(k1, p), (k2, d), (k3, s), (k4, a)] = Inr (py_round (spec_mean [p, d, s, a]) 2)"
  using round_avg_eq [of "[(k1, p), (k2, d), (k3, s), (k4, a)]"] by (simp add: dict_values_def)

lemma and_then_Inr [simp]: "and_then (Inr x) f = f x"
  by (simp add: and_then_def)

lemma and_then_Inl [simp]: "and_then (Inl e) f = Inl e"
  by (simp add: and_then_def)

lemma analyze_body_scored:
  assumes "requests_get w u (rater_headers self) (timeout self) = Inr response"
    and "raise_for_status response = Inr ()"
    and "html_parser w (response_text response) = Inr soup"
    and "check_accessibility soup = Inr acc"
  shows "analyze_body self w u =
     Inr (Success u
       (scores_from (check_performance response (seconds_around_get w)) (analyze_design soup)
          (check_seo_basics soup) acc)
       (metrics_from (check_performance response (seconds_around_get w)) (analyze_design soup)
          (check_seo_basics soup) acc))"
  unfolding analyze_body_def
  by (simp add: assms Let_def round_avg_performance round_avg_design round_avg_seo
      round_avg_accessibility [OF assms(4)] round_avg_four scores_from_def metrics_from_def)

lemma analyze_body_cases:
  obtains (get_raises) e where "requests_get w u (rater_headers self) (timeout self) = Inl e"
      "analyze_body self w u = Inl e"
  | (status_raises) response e where "requests_get w u (rater_headers self) (timeout self) = Inr response"
      "raise_for_status response = Inl e" "analyze_body self w u = Inl e"
  | (parser_raises) response e where "requests_get w u (rater_headers self) (timeout self) = Inr response"
      "raise_for_status response = Inr ()" "html_parser w (response_text response) = Inl e"
      "analyze_body self w u = Inl e"
  | (metric_raises) response soup e where "requests_get w u (rater_headers self) (timeout self) = Inr response"
      "raise_for_status response = Inr ()" "html_parser w (response_text response) = Inr soup"
      "check_accessibility soup = Inl e" "analyze_body self w u = Inl e"
  | (scored) response soup acc where "requests_get w u (rater_headers self) (timeout self) = Inr response"
      "raise_for_status response = Inr ()" "html_parser w (response_text response) = Inr soup"
      "check_accessibility soup = Inr acc"
      "analyze_body self w u =
         Inr (Success u
           (scores_from (check_performance response (seconds_around_get w)) (analyze_design soup)
              (check_seo_basics soup) acc)
           (metrics_from (check_performance response (seconds_around_get w)) (analyze_design soup)
              (check_seo_basics soup) acc))"
proof (cases "requests_get w u (rater_headers self) (timeout self)")
  case (Inl e)
  then have "analyze_body self w u = Inl e" by (simp add: analyze_body_def)
  with Inl show ?thesis by (rule get_raises)
next
  case get: (Inr response)
  show ?thesis
  proof (cases "raise_for_status response")
    case (Inl e)
    with get have "analyze_body self w u = Inl e" by (simp add: analyze_body_def)
    with get Inl show ?thesis by (rule status_raises)
  next
    case (Inr x)
    then have st: "raise_for_status response = Inr ()" by simp
    show ?thesis
    proof (cases "html_parser w (response_text response)")
      case (Inl e)
      with get st have "analyze_body self w u = Inl e" by (simp add: analyze_body_def Let_def)
      with get st Inl show ?thesis by (rule parser_raises)
    next
      case parsed: (Inr soup)
      show ?thesis
      proof (cases "check_accessibility soup")
        case (Inl e)
        with get st parsed have "analyze_body self w u = Inl e"
          by (simp add: analyze_body_def Let_def)
        with get st parsed Inl show ?thesis by (rule metric_raises)
      next
        case (Inr acc)
        from get st parsed Inr analyze_body_scored [OF get st parsed Inr]
        show ?thesis by (rule scored)
      qed
    qed
  qed
qed

section \<open>Evaluating the examples\<close>

lemma floor_rat_numeral_div:
  "\<lfloor>(numeral a :: rat) / numeral b\<rfloor> = (numeral a :: int) div numeral b"
  using floor_divide_of_int_eq [of "numeral a" "numeral b", where ?'a = rat] by simp

lemmas round_simps = py_round_def round_half_even_def Let_def floor_rat_numeral_div

lemmas page_simps = example_page_def nested_html_page_def no_html_page_def BeautifulSoup_object_def
  find_all_def find_tag_def find_with_attr_def find_all_having_def str_attr_def semantic_elements_def

lemma example_performance:
  "check_performance (example_response code why) (seconds_around_get (example_world resp doc)) =
   [(''load_time'', 2), (''response_size'', 10), (''ttfb'', 10), (''compression'', 10)]"
  by (simp add: check_performance_def example_response_def example_world_def rate_metric_def
      enumerate_eq_zip upt_rec headers_get_def lower_char_def)

lemma example_page_design:
  "analyze_design example_page =
   [(''color_contrast'', 0), (''typography'', 5), (''layout_structure'', 0),
    (''responsive_design'', 0), (''visual_hierarchy'', 3)]"
  by (simp add: analyze_design_def analyze_color_contrast_def analyze_typography_def
      analyze_layout_def check_responsive_design_def analyze_visual_hierarchy_def page_simps)

lemma example_page_img_alt: "check_img_alt example_page = 667 / 100"
  by (simp add: check_img_alt_def page_simps round_simps)

lemma example_page_seo:
  "check_seo_basics example_page =
   [(''title'', 10), (''meta_description'', 0), (''headings'', 2), (''img_alt'', 667 / 100),
    (''canonical'', 0)]"
  by (simp add: check_seo_basics_def analyze_headings_def check_img_alt_def page_simps round_simps)

lemma example_page_accessibility:
  "check_accessibility example_page =
   Inr [(''lang_attribute'', 10), (''aria_landmarks'', 0), (''form_labels'', 10),
        (''alt_texts'', 667 / 100), (''heading_structure'', 2)]"
  by (simp add: check_accessibility_def analyze_headings_def check_img_alt_def
      check_aria_landmarks_def check_form_labels_def page_simps round_simps)

lemma example_page_scores:
  "scores_from [(''load_time'', 2), (''response_size'', 10), (''ttfb'', 10), (''compression'', 10)]
     [(''color_contrast'', 0), (''typography'', 5), (''layout_structure'', 0),
      (''responsive_design'', 0), (''visual_hierarchy'', 3)]
     [(''title'', 10), (''meta_description'', 0), (''headings'', 2), (''img_alt'', 667 / 100),
      (''canonical'', 0)]
     [(''lang_attribute'', 10), (''aria_landmarks'', 0), (''form_labels'', 10),
      (''alt_texts'', 667 / 100), (''heading_structure'', 2)]
   = [(''performance_score'', 8), (''design_score'', 8 / 5), (''seo_score'', 373 / 100),
      (''accessibility_score'', 573 / 100), (''overall_score'', 119 / 25)]"
  by (simp add: scores_from_def spec_mean_def dict_values_def round_simps)

lemma example_world_analysis:
  assumes "raise_for_status (example_response code why) = Inr ()"
  shows "analyze_website (WebsiteRater 10 5)
      (example_world (example_response code why) example_page) ''example.com'' =
    Inr (Success ''https://example.com'' example_scores example_metrics)"
proof -
  have u: "normalize_url ''example.com'' = ''https://example.com''"
    by (simp add: normalize_url_def)
  have g: "requests_get (example_world (example_response code why) example_page) ''https://example.com''
      (rater_headers (WebsiteRater 10 5)) (timeout (WebsiteRater 10 5)) = Inr (example_response code why)"
    by (simp add: example_world_def)
  have p: "html_parser (example_world (example_response code why) example_page)
      (response_text (example_response code why)) = Inr example_page"
    by (simp add: example_world_def)
  from analyze_body_scored [OF g assms p example_page_accessibility]
  show ?thesis
    by (simp add: analyze_website_def Let_def u example_performance example_page_design
        example_page_seo example_page_scores metrics_from_def example_scores_def
        example_metrics_def)
qed

lemma status_200_passes: "raise_for_status (example_response 200 why) = Inr ()"
  by (simp add: raise_for_status_def example_response_def)

section \<open>Scores of a success result\<close>

lemma analyze_website_success:
  assumes "analyze_website self w u = Inr (Success u' sc ms)"
  obtains response soup acc where
    "requests_get w (normalize_url u) (rater_headers self) (timeout self) = Inr response"
    "raise_for_status response = Inr ()"
    "html_parser w (response_text response) = Inr soup"
    "check_accessibility soup = Inr acc"
    "u' = normalize_url u"
    "sc = scores_from (check_performance response (seconds_around_get w)) (analyze_design soup)
            (check_seo_basics soup) acc"
    "ms = metrics_from (check_performance response (seconds_around_get w)) (analyze_design soup)
            (check_seo_basics soup) acc"
proof -
  from assms have body: "analyze_body self w (normalize_url u) = Inr (Success u' sc ms)"
    by (simp add: analyze_website_def Let_def split: sum.splits)
  show thesis
  proof (cases rule: analyze_body_cases [of w "normalize_url u" self])
    case (scored response soup acc)
    from body scored(5) have
      "Success u' sc ms =
         Success (normalize_url u)
           (scores_from (check_performance response (seconds_around_get w)) (analyze_design soup)
              (check_seo_basics soup) acc)
           (metrics_from (check_performance response (seconds_around_get w)) (analyze_design soup)
              (check_seo_basics soup) acc)"
      by (simp only: sum.inject)
    then have "u' = normalize_url u"
      and "sc = scores_from (check_performance response (seconds_around_get w)) (analyze_design soup)
              (check_seo_basics soup) acc"
      and "ms = metrics_from (check_performance response (seconds_around_get w)) (analyze_design soup)
              (check_seo_basics soup) acc"
      by (simp_all only: site_result.inject)
    with scored(1-4) show ?thesis by (rule that)
  next
    case (get_raises e)
    with body show ?thesis by simp
  next
    case (status_raises response e)
    with body show ?thesis by simp
  next
    case (parser_raises response e)
    with body show ?thesis by simp
  next
    case (metric_raises response soup e)
    with body show ?thesis by simp
  qed
qed


lemma scores_from_in_range:
  assumes "list_all in_range (dict_values pm)" "pm \<noteq> []"
    and "list_all in_range (dict_values dm)" "dm \<noteq> []"
    and "list_all in_range (dict_values sm)" "sm \<noteq> []"
    and "list_all in_range (dict_values am)" "am \<noteq> []"
  shows "list_all in_range (dict_values (scores_from pm dm sm am))"
proof -
  have cat: "in_range (py_round (spec_mean (dict_values d)) 2)"
    if "list_all in_range (dict_values d)" "d \<noteq> []" for d :: "rat dict"
    using that by (intro py_round_in_range spec_mean_in_range) (simp_all add: dict_values_def)
  note c = cat [OF assms(1,2)] cat [OF assms(3,4)] cat [OF assms(5,6)] cat [OF assms(7,8)]
  have "in_range (py_round (spec_mean [py_round (spec_mean (dict_values pm)) 2,
      py_round (spec_mean (dict_values dm)) 2, py_round (spec_mean (dict_values sm)) 2,
      py_round (spec_mean (dict_values am)) 2]) 2)"
    by (intro py_round_in_range spec_mean_in_range) (simp_all add: c)
  with c show ?thesis by (simp add: scores_from_def Let_def dict_values_def)
qed


text \<open>
  Claim C5.  In every success result of \<^verbatim>\<open>analyze_website\<close>, whatever the fetched
  document, every metric value of every category, every category score and the overall
  score lie between 0 and 10.
\<close>

theorem all_scores_in_range:
  assumes "analyze_website self w u = Inr (Success u' sc ms)"
  shows "list_all (\<lambda>m. list_all in_range (dict_values m)) (dict_values ms)
    \<and> list_all in_range (dict_values sc)"
  using assms
proof (rule analyze_website_success)
  fix response soup acc
  assume acc: "check_accessibility soup = Inr acc"
    and sc: "sc = scores_from (check_performance response (seconds_around_get w)) (analyze_design soup)
            (check_seo_basics soup) acc"
    and ms: "ms = metrics_from (check_performance response (seconds_around_get w)) (analyze_design soup)
            (check_seo_basics soup) acc"
  have ne: "check_performance response (seconds_around_get w) \<noteq> []" "analyze_design soup \<noteq> []"
    "check_seo_basics soup \<noteq> []" "acc \<noteq> []"
    using acc
    by (auto simp: check_performance_def analyze_design_def check_seo_basics_def
        check_accessibility_def split: option.splits)
  note r = check_performance_in_range [of response "seconds_around_get w"]
    analyze_design_in_range [of soup] check_seo_basics_in_range [of soup]
    check_accessibility_in_range [OF acc]
  have "list_all in_range (dict_values sc)"
    unfolding sc by (rule scores_from_in_range) (rule r ne)+
  moreover have "list_all (\<lambda>m. list_all in_range (dict_values m)) (dict_values ms)"
    unfolding ms using r by (simp add: metrics_from_def dict_values_def)
  ultimately show ?thesis by simp
qed


theorem all_scores_in_range_witness:
  "analyze_website (WebsiteRater 10 5) (example_world (example_response 200 ''OK'') example_page)
      ''example.com'' = Inr (Success ''https://example.com'' example_scores example_metrics)
   \<and> list_all (\<lambda>m. list_all in_range (dict_values m)) (dict_values example_metrics)
   \<and> list_all in_range (dict_values example_scores)"
proof -
  note a = example_world_analysis [OF status_200_passes, of "''OK''"]
  from a all_scores_in_range [OF a] show ?thesis by (rule conjI)
qed

section \<open>The image metric\<close>




section \<open>Failures of the site analyzer and of a worker\<close>














section \<open>Pages without an html element\<close>








section \<open>The report of a batch\<close>














section \<open>One result per URL, aggregates and views\<close>









end
